theory Spec2Isabelle
  imports Complex_Main
begin

section \<open>Python values\<close>

text \<open>
  A Python \<^verbatim>\<open>str\<close> is a sequence of code points. The model keeps the code points below
  256, one per \<^typ>\<open>char\<close> (read with \<^term>\<open>of_char\<close>), so a \<^typ>\<open>string\<close> here is a
  Python string over Latin-1. On these code points \<^verbatim>\<open>str.lower()\<close> maps \<^verbatim>\<open>A\<close>..\<^verbatim>\<open>Z\<close>
  (65..90) and the accented capitals 192..222 other than the multiplication sign 215 to the
  code point 32 above, and leaves every other one alone; \<open>cased\<close> names the code points
  it changes.
\<close>

definition cased :: "nat \<Rightarrow> bool" where
  "cased n \<longleftrightarrow> (65 \<le> n \<and> n \<le> 90) \<or> (192 \<le> n \<and> n \<le> 222 \<and> n \<noteq> 215)"

definition lower_char :: "char \<Rightarrow> char" where
  "lower_char c = (if cased (of_char c) then char_of (of_char c + 32 :: nat) else c)"

definition lower :: "string \<Rightarrow> string" where
  "lower s = map lower_char s"

text \<open>
  The values the tool dictionaries hold: strings and float literals. The functions only
  store and return the floats, so a literal is kept as the decimal number it is written as.
\<close>

datatype pyval = Str string | Float real

type_synonym pydict = "string \<rightharpoonup> pyval"

section \<open>Day 2: the currency tools\<close>

definition fee_database :: "string \<rightharpoonup> real" where
  "fee_database =
     [''platinum credit card'' \<mapsto> 0.02,
      ''gold credit card'' \<mapsto> 0.025,
      ''bank transfer'' \<mapsto> 0.01]"

definition get_fee_for_payment_method :: "string \<Rightarrow> pydict" where
  "get_fee_for_payment_method method =
     (case fee_database (lower method) of
        Some fee \<Rightarrow> [''status'' \<mapsto> Str ''success'', ''fee_percentage'' \<mapsto> Float fee]
      | None \<Rightarrow> [''status'' \<mapsto> Str ''error'',
                 ''error_message'' \<mapsto> Str ''payment method not found''])"

definition rate_database :: "string \<rightharpoonup> (string \<rightharpoonup> real)" where
  "rate_database =
     [''usd'' \<mapsto> [''eur'' \<mapsto> 0.93, ''jpy'' \<mapsto> 157.50, ''inr'' \<mapsto> 83.58]]"

text \<open>\<^verbatim>\<open>d.get(k, default)\<close>\<close>

definition get_or :: "('k \<rightharpoonup> 'v) \<Rightarrow> 'k \<Rightarrow> 'v \<Rightarrow> 'v" where
  "get_or d k dflt = (case d k of Some v \<Rightarrow> v | None \<Rightarrow> dflt)"

definition get_exchange_rate :: "string \<Rightarrow> string \<Rightarrow> pydict" where
  "get_exchange_rate base_currency target_currency =
     (let base = lower base_currency;
          target = lower target_currency;
          rate = (get_or rate_database base Map.empty) target
      in case rate of
           Some r \<Rightarrow> [''status'' \<mapsto> Str ''success'', ''rate'' \<mapsto> Float r]
         | None \<Rightarrow>
             [''status'' \<mapsto> Str ''error'',
              ''error_message'' \<mapsto>
                 Str (''Unsupported currency pair: '' @ base_currency @ ''/'' @ target_currency)])"

section \<open>Day 1: the story refinement loop\<close>

text \<open>
  \<^verbatim>\<open>exit_loop\<close> takes no argument and reads or writes nothing outside itself. In state-passing
  form it is handed the state of the caller and hands it back as it was, next to the
  dictionary it returns.
\<close>

definition exit_loop :: "'s \<Rightarrow> pydict \<times> 's" where
  "exit_loop s =
     ([''status'' \<mapsto> Str ''approved'', ''message'' \<mapsto> Str ''Story approved, exiting loop.''], s)"

text \<open>
  The session state shared by the agents of one run: named fields holding text. An agent
  is declared with the placeholders \<^verbatim>\<open>{key}\<close> of its instruction, in the order they occur,
  the \<^verbatim>\<open>output_key\<close> its response is stored under, and the names of its tools. The
  instruction's wording and the model settings do not enter the flow of data between the
  agents and are left out.
\<close>

type_synonym workspace = "string \<rightharpoonup> string"

record Agent =
  name :: string
  instruction_vars :: "string list"
  output_key :: string
  tools :: "string list"

definition initial_writer :: Agent where
  "initial_writer =
     \<lparr>name = ''InitialWriter'', instruction_vars = [], output_key = ''story_draft'', tools = []\<rparr>"

definition critic_agent :: Agent where
  "critic_agent =
     \<lparr>name = ''CriticAgent'', instruction_vars = [''story_draft''], output_key = ''critique'',
      tools = []\<rparr>"

definition refiner_agent :: Agent where
  "refiner_agent =
     \<lparr>name = ''RefinerAgent'', instruction_vars = [''story_draft'', ''critique''],
      output_key = ''current_story'', tools = [''exit_loop'']\<rparr>"

text \<open>
  The loop is declared with its sub-agents, in order, and its ceiling of iterations.
\<close>

record LoopAgent =
  loop_name :: string
  sub_agents :: "Agent list"
  max_iterations :: int

definition story_refinement_loop :: LoopAgent where
  "story_refinement_loop =
     \<lparr>loop_name = ''StoryRefinementLoop'', sub_agents = [critic_agent, refiner_agent],
      max_iterations = 2\<rparr>"

text \<open>
  Modelled from the spec: what the imported framework, which is not part of the repository,
  hands a declared agent from the session state. By the spec a stage reads zero or more
  named fields from the Workspace: the agent is given each placeholder of its instruction
  with the value stored under it (\<open>None\<close> when the field is absent).
\<close>

definition inject_session_state :: "Agent \<Rightarrow> workspace \<Rightarrow> (string \<times> string option) list" where
  "inject_session_state a ws = map (\<lambda>k. (k, ws k)) (instruction_vars a)"

text \<open>
  Modelled from the spec: what the imported framework does with an agent's response. By
  the spec a stage writes exactly one named field, with overwrite semantics: the response
  text is stored under the agent's \<^verbatim>\<open>output_key\<close> and no other field changes.
\<close>

definition save_output :: "Agent \<Rightarrow> string \<Rightarrow> workspace \<Rightarrow> workspace" where
  "save_output a response ws = ws(output_key a \<mapsto> response)"

text \<open>
  Modelled from the spec: one run of an agent, composed of the two steps above. The hosted
  language model in between is opaque: any function from what the agent is given to a text.
\<close>

type_synonym llm = "(string \<times> string option) list \<Rightarrow> string"

definition run_agent :: "llm \<Rightarrow> Agent \<Rightarrow> workspace \<Rightarrow> workspace" where
  "run_agent model a ws = save_output a (model (inject_session_state a ws)) ws"

text \<open>
  Modelled from the spec: the agents of a list run one after the other, in the order they
  are listed, each on the session state the one before it left; every agent comes with the
  model that answers for it.
\<close>

fun run_sub_agents :: "(llm \<times> Agent) list \<Rightarrow> workspace \<Rightarrow> workspace" where
  "run_sub_agents [] ws = ws"
| "run_sub_agents ((model, a) # rest) ws = run_sub_agents rest (run_agent model a ws)"

text \<open>
  Modelled from the spec: one critique-then-refine cycle of \<^verbatim>\<open>story_refinement_loop\<close> with
  the revision outcome, where the refiner answers with a rewritten story.
\<close>

definition revision_pass :: "llm \<Rightarrow> llm \<Rightarrow> workspace \<Rightarrow> workspace" where
  "revision_pass critic_model refiner_model ws =
     run_sub_agents (zip [critic_model, refiner_model] (sub_agents story_refinement_loop)) ws"

section \<open>Lower-casing\<close>

lemma cased_shift: "cased n \<Longrightarrow> \<not> cased (n + 32)"
  by (auto simp: cased_def)

lemma cased_mod: "cased n \<Longrightarrow> (n + 32) mod 256 = n + 32"
  by (auto simp: cased_def)

lemma lower_char_idem: "lower_char (lower_char c) = lower_char c"
  by (simp add: lower_char_def cased_shift cased_mod)

lemma lower_idem: "lower (lower s) = lower s"
  by (simp add: lower_def lower_char_idem)

section \<open>The fee lookup\<close>

lemma fee_database_eq:
  "fee_database k =
     (if k = ''bank transfer'' then Some 0.01
      else if k = ''gold credit card'' then Some 0.025
      else if k = ''platinum credit card'' then Some 0.02
      else None)"
  by (simp add: fee_database_def)

lemma dict_status_neq: "d ''status'' \<noteq> d' ''status'' \<Longrightarrow> (d :: pydict) \<noteq> d'"
  by auto

lemma success_neq_error:
  "k \<noteq> ''status'' \<Longrightarrow>
   [''status'' \<mapsto> Str ''success'', k \<mapsto> v] \<noteq> [''status'' \<mapsto> Str ''error'', ''error_message'' \<mapsto> e]"
  by (rule dict_status_neq) simp

lemma get_fee_cases:
  "get_fee_for_payment_method method =
     (if lower method = ''platinum credit card''
        then [''status'' \<mapsto> Str ''success'', ''fee_percentage'' \<mapsto> Float 0.02]
      else if lower method = ''gold credit card''
        then [''status'' \<mapsto> Str ''success'', ''fee_percentage'' \<mapsto> Float 0.025]
      else if lower method = ''bank transfer''
        then [''status'' \<mapsto> Str ''success'', ''fee_percentage'' \<mapsto> Float 0.01]
      else [''status'' \<mapsto> Str ''error'',
            ''error_message'' \<mapsto> Str ''payment method not found''])"
  by (simp add: get_fee_for_payment_method_def fee_database_eq)

lemma get_fee_success_iff:
  "(\<exists>f. get_fee_for_payment_method method =
          [''status'' \<mapsto> Str ''success'', ''fee_percentage'' \<mapsto> Float f]) \<longleftrightarrow>
   lower method \<in> {''platinum credit card'', ''gold credit card'', ''bank transfer''}"
  by (auto simp add: get_fee_cases success_neq_error [symmetric] simp del: fun_upd_apply)

lemma get_fee_error_iff:
  "get_fee_for_payment_method method =
     [''status'' \<mapsto> Str ''error'', ''error_message'' \<mapsto> Str ''payment method not found''] \<longleftrightarrow>
   lower method \<notin> {''platinum credit card'', ''gold credit card'', ''bank transfer''}"
  by (auto simp add: get_fee_cases success_neq_error simp del: fun_upd_apply)

lemma get_fee_lower: "get_fee_for_payment_method (lower method) = get_fee_for_payment_method method"
  by (simp add: get_fee_for_payment_method_def lower_idem)

text \<open>
  C8. For every string \<open>method\<close> the fee lookup returns a dictionary, decided by
  \<open>lower method\<close> alone: the success dictionary with fee 0.02, 0.025 or 0.01 when it is
  \<^verbatim>\<open>platinum credit card\<close>, \<^verbatim>\<open>gold credit card\<close> or \<^verbatim>\<open>bank transfer\<close>, and the error dictionary
  with the message \<^verbatim>\<open>payment method not found\<close> otherwise. A success dictionary comes back
  exactly for those three keys, the error dictionary exactly for the rest, and the lookup
  of \<open>lower method\<close> gives what the lookup of \<open>method\<close> gives. The function has no raising
  branch on a string.
\<close>

theorem get_fee_for_payment_method_lookup:
  "get_fee_for_payment_method method =
     (if lower method = ''platinum credit card''
        then [''status'' \<mapsto> Str ''success'', ''fee_percentage'' \<mapsto> Float 0.02]
      else if lower method = ''gold credit card''
        then [''status'' \<mapsto> Str ''success'', ''fee_percentage'' \<mapsto> Float 0.025]
      else if lower method = ''bank transfer''
        then [''status'' \<mapsto> Str ''success'', ''fee_percentage'' \<mapsto> Float 0.01]
      else [''status'' \<mapsto> Str ''error'',
            ''error_message'' \<mapsto> Str ''payment method not found''])
   \<and> ((\<exists>f. get_fee_for_payment_method method =
            [''status'' \<mapsto> Str ''success'', ''fee_percentage'' \<mapsto> Float f]) \<longleftrightarrow>
        lower method \<in> {''platinum credit card'', ''gold credit card'', ''bank transfer''})
   \<and> (get_fee_for_payment_method method =
          [''status'' \<mapsto> Str ''error'',
           ''error_message'' \<mapsto> Str ''payment method not found''] \<longleftrightarrow>
        lower method \<notin> {''platinum credit card'', ''gold credit card'', ''bank transfer''})
   \<and> get_fee_for_payment_method (lower method) = get_fee_for_payment_method method"
  by (intro conjI get_fee_cases get_fee_success_iff get_fee_error_iff get_fee_lower)

theorem get_fee_for_payment_method_lookup_witness:
  "get_fee_for_payment_method ''Platinum Credit Card'' =
     [''status'' \<mapsto> Str ''success'', ''fee_percentage'' \<mapsto> Float 0.02]
   \<and> get_fee_for_payment_method ''platinum credit card'' =
     get_fee_for_payment_method ''Platinum Credit Card''"
proof -
  have l: "lower ''Platinum Credit Card'' = ''platinum credit card''"
    by code_simp
  show ?thesis
    using get_fee_for_payment_method_lookup [of "''Platinum Credit Card''"]
    by (simp add: l del: fun_upd_apply)
qed

section \<open>The exchange rate lookup\<close>

lemma rate_lookup:
  "get_or rate_database b Map.empty t =
     (if b = ''usd'' \<and> t = ''eur'' then Some 0.93
      else if b = ''usd'' \<and> t = ''jpy'' then Some 157.50
      else if b = ''usd'' \<and> t = ''inr'' then Some 83.58
      else None)"
  by (simp add: get_or_def rate_database_def)

lemma get_exchange_rate_cases:
  "get_exchange_rate base_currency target_currency =
     (if lower base_currency = ''usd'' \<and> lower target_currency = ''eur''
        then [''status'' \<mapsto> Str ''success'', ''rate'' \<mapsto> Float 0.93]
      else if lower base_currency = ''usd'' \<and> lower target_currency = ''jpy''
        then [''status'' \<mapsto> Str ''success'', ''rate'' \<mapsto> Float 157.50]
      else if lower base_currency = ''usd'' \<and> lower target_currency = ''inr''
        then [''status'' \<mapsto> Str ''success'', ''rate'' \<mapsto> Float 83.58]
      else [''status'' \<mapsto> Str ''error'',
            ''error_message'' \<mapsto>
               Str (''Unsupported currency pair: '' @ base_currency @ ''/'' @ target_currency)])"
  by (simp add: get_exchange_rate_def rate_lookup Let_def)

lemma get_exchange_rate_success_iff:
  "(\<exists>r. get_exchange_rate base_currency target_currency =
          [''status'' \<mapsto> Str ''success'', ''rate'' \<mapsto> Float r]) \<longleftrightarrow>
   (lower base_currency, lower target_currency) \<in>
     {(''usd'', ''eur''), (''usd'', ''jpy''), (''usd'', ''inr'')}"
  by (auto simp add: get_exchange_rate_cases success_neq_error [symmetric] simp del: fun_upd_apply)

lemma get_exchange_rate_status:
  "get_exchange_rate base_currency target_currency ''status'' =
     Some (Str (if (lower base_currency, lower target_currency) \<in>
                     {(''usd'', ''eur''), (''usd'', ''jpy''), (''usd'', ''inr'')}
                then ''success'' else ''error''))"
  by (auto simp add: get_exchange_rate_cases)

text \<open>
  C9. For every pair of strings the exchange rate lookup returns a dictionary, decided by
  the lower-cased pair: the success dictionary with rate 0.93, 157.50 or 83.58 when the pair
  is \<^verbatim>\<open>usd\<close> with \<^verbatim>\<open>eur\<close>, \<^verbatim>\<open>jpy\<close> or \<^verbatim>\<open>inr\<close>; for every other pair, so for every base
  other than \<^verbatim>\<open>usd\<close>, the dictionary whose status is \<^verbatim>\<open>error\<close> and whose message is
  \<^verbatim>\<open>Unsupported currency pair: \<close> followed by the two arguments as they were passed, with a
  slash between them. A success dictionary comes back exactly for the three pairs. The
  function has no raising branch on strings.
\<close>

theorem get_exchange_rate_lookup:
  "get_exchange_rate base_currency target_currency =
     (if lower base_currency = ''usd'' \<and> lower target_currency = ''eur''
        then [''status'' \<mapsto> Str ''success'', ''rate'' \<mapsto> Float 0.93]
      else if lower base_currency = ''usd'' \<and> lower target_currency = ''jpy''
        then [''status'' \<mapsto> Str ''success'', ''rate'' \<mapsto> Float 157.50]
      else if lower base_currency = ''usd'' \<and> lower target_currency = ''inr''
        then [''status'' \<mapsto> Str ''success'', ''rate'' \<mapsto> Float 83.58]
      else [''status'' \<mapsto> Str ''error'',
            ''error_message'' \<mapsto>
               Str (''Unsupported currency pair: '' @ base_currency @ ''/'' @ target_currency)])
   \<and> ((\<exists>r. get_exchange_rate base_currency target_currency =
            [''status'' \<mapsto> Str ''success'', ''rate'' \<mapsto> Float r]) \<longleftrightarrow>
        (lower base_currency, lower target_currency) \<in>
          {(''usd'', ''eur''), (''usd'', ''jpy''), (''usd'', ''inr'')})
   \<and> get_exchange_rate base_currency target_currency ''status'' =
        Some (Str (if (lower base_currency, lower target_currency) \<in>
                        {(''usd'', ''eur''), (''usd'', ''jpy''), (''usd'', ''inr'')}
                   then ''success'' else ''error''))"
  by (intro conjI get_exchange_rate_cases get_exchange_rate_success_iff
      get_exchange_rate_status)

theorem get_exchange_rate_lookup_witness:
  "get_exchange_rate ''USD'' ''EUR'' = [''status'' \<mapsto> Str ''success'', ''rate'' \<mapsto> Float 0.93]
   \<and> get_exchange_rate ''EUR'' ''USD'' =
       [''status'' \<mapsto> Str ''error'',
        ''error_message'' \<mapsto> Str ''Unsupported currency pair: EUR/USD'']"
proof -
  have l: "lower ''USD'' = ''usd''" "lower ''EUR'' = ''eur''"
    by code_simp+
  show ?thesis
    using get_exchange_rate_lookup [of "''USD''" "''EUR''"]
      get_exchange_rate_lookup [of "''EUR''" "''USD''"]
    by (simp add: l del: fun_upd_apply)
qed

section \<open>The exit tool\<close>

text \<open>
  C10. Whatever the state it is called in, \<^verbatim>\<open>exit_loop\<close> returns the dictionary with
  \<^verbatim>\<open>status\<close> \<^verbatim>\<open>approved\<close> and \<^verbatim>\<open>message\<close> \<^verbatim>\<open>Story approved, exiting loop.\<close> and nothing
  else in it, the same on any two calls, and leaves the state as it found it.
\<close>

theorem exit_loop_constant:
  "exit_loop s =
     ([''status'' \<mapsto> Str ''approved'', ''message'' \<mapsto> Str ''Story approved, exiting loop.''], s)
   \<and> fst (exit_loop s) = fst (exit_loop s')
   \<and> dom (fst (exit_loop s)) = {''status'', ''message''}
   \<and> snd (exit_loop s) = s"
  by (auto simp add: exit_loop_def)

theorem exit_loop_constant_witness:
  "exit_loop ([''story_draft'' \<mapsto> ''draft-0'', ''critique'' \<mapsto> ''APPROVED''] :: workspace) =
     ([''status'' \<mapsto> Str ''approved'', ''message'' \<mapsto> Str ''Story approved, exiting loop.''],
      [''story_draft'' \<mapsto> ''draft-0'', ''critique'' \<mapsto> ''APPROVED''])"
  by (rule exit_loop_constant [THEN conjunct1])

section \<open>What the critic reads\<close>

lemma critic_reads_after_refiner:
  "inject_session_state critic_agent (run_agent model refiner_agent ws) =
   inject_session_state critic_agent ws"
  by (simp add: inject_session_state_def run_agent_def save_output_def critic_agent_def
      refiner_agent_def)

lemma critic_reads_after_critic:
  "inject_session_state critic_agent (run_agent model critic_agent ws) =
   inject_session_state critic_agent ws"
  by (simp add: inject_session_state_def run_agent_def save_output_def critic_agent_def)

lemma revision_pass_unfold:
  "revision_pass critic_model refiner_model ws =
     run_agent refiner_model refiner_agent (run_agent critic_model critic_agent ws)"
  by (simp add: revision_pass_def story_refinement_loop_def)

lemma critic_reads_after_revision_pass:
  "inject_session_state critic_agent (revision_pass critic_model refiner_model ws) =
   inject_session_state critic_agent ws"
  by (simp add: revision_pass_unfold critic_reads_after_refiner critic_reads_after_critic)

lemma critic_reads_after_revision_passes:
  "inject_session_state critic_agent ((revision_pass critic_model refiner_model ^^ n) ws) =
   inject_session_state critic_agent ws"
  by (induction n) (simp_all add: critic_reads_after_revision_pass)

text \<open>
  C2. The drafter answers \<^verbatim>\<open>draft-0\<close>, the critic \<^verbatim>\<open>needs work\<close>, the refiner \<^verbatim>\<open>draft-1\<close>.
  On the first pass the critic is given the drafter's output. After the pass the refiner's
  output is in the session state under \<^verbatim>\<open>current_story\<close>, while \<^verbatim>\<open>story_draft\<close> still holds
  the drafter's output; the critic of the second pass is given \<^verbatim>\<open>draft-0\<close> again and not
  \<^verbatim>\<open>draft-1\<close>, and so is the refiner of the second pass.
\<close>

theorem critic_second_pass_reads_first_draft:
  "(let ws0 = run_agent (\<lambda>_. ''draft-0'') initial_writer Map.empty;
        ws1 = revision_pass (\<lambda>_. ''needs work'') (\<lambda>_. ''draft-1'') ws0
    in inject_session_state critic_agent ws0 = [(''story_draft'', Some ''draft-0'')]
     \<and> ws1 ''current_story'' = Some ''draft-1''
     \<and> ws1 ''story_draft'' = Some ''draft-0''
     \<and> inject_session_state critic_agent ws1 = [(''story_draft'', Some ''draft-0'')]
     \<and> inject_session_state critic_agent ws1 \<noteq> [(''story_draft'', Some ''draft-1'')]
     \<and> inject_session_state refiner_agent ws1 =
         [(''story_draft'', Some ''draft-0''), (''critique'', Some ''needs work'')])"
  by (simp add: revision_pass_unfold inject_session_state_def run_agent_def save_output_def
      critic_agent_def refiner_agent_def initial_writer_def)

end
